theory Spec2Isabelle
  imports Complex_Main "HOL-Library.Sublist"
begin

section \<open>Python values and exceptions\<close>

text \<open>
  The interpreter receives untyped Python data: the result of \<^verbatim>\<open>json.loads\<close>, a dict built
  by a caller, or anything else. The values are modelled by one datatype. A dict is an
  association list read with \<open>map_of\<close>; strings are byte lists. Floats are never computed
  with, only tested for truth, so a float is a rational or one of the three special values.
\<close>

datatype pyfloat = Finite rat | PosInf | NegInf | NaN

datatype pyval =
    PNone
  | PBool bool
  | PInt int
  | PFloat pyfloat
  | PStr string
  | PList "pyval list"
  | PDict "(string \<times> pyval) list"

text \<open>
  An exception is its class and the text that \<^verbatim>\<open>str(e)\<close> gives. \<open>OtherException\<close> stands for
  every subclass of \<^verbatim>\<open>Exception\<close> that the code does not name.
\<close>

datatype exc_class =
    ValueError | JSONDecodeError | TypeError | AttributeError | RecursionError
  | RequestException | OtherException

datatype exc = Exc exc_class string

fun exc_class_of :: "exc \<Rightarrow> exc_class" where
  "exc_class_of (Exc c m) = c"

fun exc_str :: "exc \<Rightarrow> string" where
  "exc_str (Exc c m) = m"

text \<open>\<^verbatim>\<open>json.JSONDecodeError\<close> is a subclass of \<^verbatim>\<open>ValueError\<close>.\<close>

definition is_subclass :: "exc_class \<Rightarrow> exc_class \<Rightarrow> bool" where
  "is_subclass c c' = (c = c' \<or> (c = JSONDecodeError \<and> c' = ValueError))"

text \<open>Sequencing of statements that may raise: the first exception ends the block.\<close>

definition and_then :: "exc + 'a \<Rightarrow> ('a \<Rightarrow> exc + 'b) \<Rightarrow> exc + 'b" where
  "and_then r f = (case r of Inl e \<Rightarrow> Inl e | Inr v \<Rightarrow> f v)"

text \<open>\<^verbatim>\<open>try: body except (C1, C2, ...) : handler\<close> and \<^verbatim>\<open>except Exception as e: handler\<close>.\<close>

definition except_classes ::
  "exc_class list \<Rightarrow> exc + 'a \<Rightarrow> (exc \<Rightarrow> exc + 'a) \<Rightarrow> exc + 'a" where
  "except_classes cs body handler =
     (case body of
        Inl e \<Rightarrow> if list_ex (is_subclass (exc_class_of e)) cs then handler e else Inl e
      | Inr v \<Rightarrow> Inr v)"

definition except_Exception :: "exc + 'a \<Rightarrow> (exc \<Rightarrow> exc + 'a) \<Rightarrow> exc + 'a" where
  "except_Exception body handler = (case body of Inl e \<Rightarrow> handler e | Inr v \<Rightarrow> Inr v)"

subsection \<open>Built-in operations\<close>

fun type_name :: "pyval \<Rightarrow> string" where
  "type_name PNone = ''NoneType''"
| "type_name (PBool b) = ''bool''"
| "type_name (PInt n) = ''int''"
| "type_name (PFloat f) = ''float''"
| "type_name (PStr s) = ''str''"
| "type_name (PList xs) = ''list''"
| "type_name (PDict d) = ''dict''"

definition quoted :: "string \<Rightarrow> string" where
  "quoted s = [CHR 0x27] @ s @ [CHR 0x27]"

text \<open>Truth value of an object, as \<^verbatim>\<open>if x:\<close> and \<^verbatim>\<open>not x\<close> take it.\<close>

fun py_truthy :: "pyval \<Rightarrow> bool" where
  "py_truthy PNone = False"
| "py_truthy (PBool b) = b"
| "py_truthy (PInt n) = (n \<noteq> 0)"
| "py_truthy (PFloat f) = (f \<noteq> Finite 0)"
| "py_truthy (PStr s) = (s \<noteq> [])"
| "py_truthy (PList xs) = (xs \<noteq> [])"
| "py_truthy (PDict d) = (d \<noteq> [])"

text \<open>
  \<^verbatim>\<open>key in container\<close> for a string key: a key of a dict, an element of a list, a substring
  of a string; any other object raises \<^verbatim>\<open>TypeError\<close>.
\<close>

fun py_contains :: "pyval \<Rightarrow> string \<Rightarrow> exc + bool" where
  "py_contains (PDict d) k = Inr (k \<in> set (map fst d))"
| "py_contains (PList xs) k = Inr (PStr k \<in> set xs)"
| "py_contains (PStr s) k = Inr (sublist k s)"
| "py_contains v k =
     Inl (Exc TypeError (''argument of type '' @ quoted (type_name v) @ '' is not iterable''))"

text \<open>\<^verbatim>\<open>obj.get(key, default)\<close>: only a dict has the method.\<close>

definition dict_get :: "(string \<times> pyval) list \<Rightarrow> string \<Rightarrow> pyval \<Rightarrow> pyval" where
  "dict_get d k dflt = (case map_of d k of Some v \<Rightarrow> v | None \<Rightarrow> dflt)"

fun py_get :: "pyval \<Rightarrow> string \<Rightarrow> pyval \<Rightarrow> exc + pyval" where
  "py_get (PDict d) k dflt = Inr (dict_get d k dflt)"
| "py_get v k dflt =
     Inl (Exc AttributeError (quoted (type_name v) @ '' object has no attribute '' @ quoted ''get''))"

text \<open>
  \<^verbatim>\<open>obj.lower()\<close>: only a string has the method. The letters A to Z are mapped to a to z
  and every other byte is kept.
\<close>

definition lower_char :: "char \<Rightarrow> char" where
  "lower_char c =
     (case map_of (zip ''ABCDEFGHIJKLMNOPQRSTUVWXYZ'' ''abcdefghijklmnopqrstuvwxyz'') c of
        Some l \<Rightarrow> l
      | None \<Rightarrow> c)"

fun py_lower :: "pyval \<Rightarrow> exc + string" where
  "py_lower (PStr s) = Inr (map lower_char s)"
| "py_lower v =
     Inl (Exc AttributeError (quoted (type_name v) @ '' object has no attribute '' @ quoted ''lower''))"

text \<open>
  \<^verbatim>\<open>str(obj)\<close>, which is also how an f-string prints a value. The text of \<^verbatim>\<open>None\<close>, of a
  bool and of a string is fixed; the text of a number or of a container is what the
  runtime \<open>rt\<close> gives (it may raise, as for an integer above the digit limit).
\<close>

fun py_str :: "(pyval \<Rightarrow> exc + string) \<Rightarrow> pyval \<Rightarrow> exc + string" where
  "py_str rt PNone = Inr ''None''"
| "py_str rt (PBool b) = Inr (if b then ''True'' else ''False'')"
| "py_str rt (PStr s) = Inr s"
| "py_str rt v = rt v"

text \<open>The text of a list of field names, as an f-string prints it: \<^verbatim>\<open>['a', 'b']\<close>.\<close>

fun join_comma :: "string list \<Rightarrow> string" where
  "join_comma [] = []"
| "join_comma [s] = s"
| "join_comma (s # t # ss) = s @ '', '' @ join_comma (t # ss)"

definition repr_field_list :: "string list \<Rightarrow> string" where
  "repr_field_list fields = ''['' @ join_comma (map quoted fields) @ '']''"

section \<open>The repair agent: \<^verbatim>\<open>repair_agent.py\<close>\<close>

text \<open>
  A call of the logger changes no value, so of a log line only what evaluating its argument
  can do is kept. The f-strings of \<^verbatim>\<open>handle_claude_response\<close> that print \<open>parts_needed\<close> and
  \<open>further_inquiry\<close> convert these values to text, which is \<open>py_str\<close> and may raise; the
  lower-cased \<open>complexity_level\<close> printed with them is a string, and so are the field names
  and the exception texts of the other log lines, whose conversion does not raise.
\<close>

definition required_fields :: "string list" where
  "required_fields = [''parts_needed'', ''complexity_level'', ''further_inquiry'']"

definition contractor_message :: string where
  "contractor_message =
     ''It seems your issue is rather complex, would you like for me to dispatch a contractor to your address?''"

definition no_questions_message :: string where
  "no_questions_message =
     ''I need more information to help you, but no specific questions were provided.''"

definition no_instructions_message :: string where
  "no_instructions_message = ''I should provide repair instructions, but none were generated.''"

definition unclear_inquiry_message :: string where
  "unclear_inquiry_message = ''Unable to determine next steps due to unclear inquiry status.''"

definition fallback_message :: string where
  "fallback_message =
     ''Unable to determine the appropriate next steps for this repair situation.''"

definition error_prefix :: string where
  "error_prefix = ''Error processing repair analysis: ''"

definition missing_fields_message :: "string list \<Rightarrow> string" where
  "missing_fields_message missing_fields =
     ''Missing required fields in Claude response: '' @ repr_field_list missing_fields"

text \<open>The loop over \<open>required_fields\<close> that collects the absent ones.\<close>

fun collect_missing :: "pyval \<Rightarrow> string list \<Rightarrow> string list \<Rightarrow> exc + string list" where
  "collect_missing response [] missing_fields = Inr missing_fields"
| "collect_missing response (field # fields) missing_fields =
     and_then (py_contains response field)
       (\<lambda>present. collect_missing response fields
          (if \<not> present then missing_fields @ [field] else missing_fields))"

text \<open>
  The decision rules, on the extracted fields. The branch for an unclear inquiry status
  logs \<open>further_inquiry\<close> and the last branch logs \<open>parts_needed\<close> before returning.
\<close>

definition decision_logic ::
  "(pyval \<Rightarrow> exc + string) \<Rightarrow> pyval \<Rightarrow> string \<Rightarrow> pyval \<Rightarrow> pyval \<Rightarrow> pyval \<Rightarrow> exc + pyval" where
  "decision_logic rt parts_needed complexity_level further_inquiry further_questions instructions =
     (if parts_needed = PBool True \<or> complexity_level = ''high'' then
        Inr (PStr contractor_message)
      else if parts_needed = PBool False \<and> complexity_level \<in> set [''medium'', ''low''] then
        (if further_inquiry = PBool True then
           (if \<not> py_truthy further_questions then Inr (PStr no_questions_message)
            else Inr further_questions)
         else if further_inquiry = PBool False then
           (if \<not> py_truthy instructions then Inr (PStr no_instructions_message)
            else Inr instructions)
         else
           and_then (py_str rt further_inquiry) (\<lambda>logged.
             Inr (PStr unclear_inquiry_message)))
      else
        and_then (py_str rt parts_needed) (\<lambda>logged.
          Inr (PStr fallback_message)))"

text \<open>
  The body of the \<^verbatim>\<open>try\<close> block of \<^verbatim>\<open>handle_claude_response\<close>: the check for missing
  fields, the extraction of the fields, the log line that prints \<open>parts_needed\<close> and
  \<open>further_inquiry\<close>, and the decision rules.
\<close>

definition handle_body :: "(pyval \<Rightarrow> exc + string) \<Rightarrow> pyval \<Rightarrow> exc + pyval" where
  "handle_body rt response =
     and_then (collect_missing response required_fields []) (\<lambda>missing_fields.
       if missing_fields \<noteq> [] then Inl (Exc ValueError (missing_fields_message missing_fields))
       else
         and_then (py_get response ''parts_needed'' PNone) (\<lambda>parts_needed.
         and_then (py_get response ''complexity_level'' (PStr [])) (\<lambda>level.
         and_then (py_lower level) (\<lambda>complexity_level.
         and_then (py_get response ''further_inquiry'' PNone) (\<lambda>further_inquiry.
         and_then (py_get response ''further_questions'' (PStr [])) (\<lambda>further_questions.
         and_then (py_get response ''instructions'' (PStr [])) (\<lambda>instructions.
         and_then (py_str rt parts_needed) (\<lambda>logged_parts.
         and_then (py_str rt further_inquiry) (\<lambda>logged_inquiry.
           decision_logic rt parts_needed complexity_level further_inquiry
             further_questions instructions)))))))))"

definition handle_claude_response :: "(pyval \<Rightarrow> exc + string) \<Rightarrow> pyval \<Rightarrow> exc + pyval" where
  "handle_claude_response rt response =
     except_Exception (handle_body rt response)
       (\<lambda>e. Inr (PStr (error_prefix @ exc_str e)))"

text \<open>
  \<^verbatim>\<open>validate_claude_response_structure\<close>: the type of each required field, then the value
  of \<open>complexity_level\<close>. No caller in the repository uses it. Its last step reads
  \<open>complexity_level\<close> after the loop has found it to be a string, so the other case of that
  lookup is never taken.
\<close>

fun is_bool :: "pyval \<Rightarrow> bool" where
  "is_bool (PBool b) = True"
| "is_bool v = False"

fun is_str :: "pyval \<Rightarrow> bool" where
  "is_str (PStr s) = True"
| "is_str v = False"

definition required_field_types :: "(string \<times> (pyval \<Rightarrow> bool)) list" where
  "required_field_types =
     [(''parts_needed'', is_bool), (''complexity_level'', is_str), (''further_inquiry'', is_bool)]"

fun check_required :: "(string \<times> pyval) list \<Rightarrow> (string \<times> (pyval \<Rightarrow> bool)) list \<Rightarrow> bool" where
  "check_required response [] = True"
| "check_required response ((field, expected_type) # rest) =
     (case map_of response field of
        None \<Rightarrow> False
      | Some v \<Rightarrow> if \<not> expected_type v then False else check_required response rest)"

definition valid_complexity :: "string list" where
  "valid_complexity = [''low'', ''medium'', ''high'']"

definition validate_claude_response_structure :: "(string \<times> pyval) list \<Rightarrow> bool" where
  "validate_claude_response_structure response =
     (if \<not> check_required response required_field_types then False
      else
        (case map_of response ''complexity_level'' of
           Some (PStr s) \<Rightarrow> if map lower_char s \<notin> set valid_complexity then False else True
         | _ \<Rightarrow> False))"

text \<open>
  \<^verbatim>\<open>generate_response\<close>. \<open>loads\<close> is \<^verbatim>\<open>json.loads\<close>: the parsed value, or the exception it
  raises.
\<close>

definition generate_body ::
  "(string \<Rightarrow> exc + pyval) \<Rightarrow> (pyval \<Rightarrow> exc + string) \<Rightarrow> pyval \<Rightarrow> exc + pyval" where
  "generate_body loads rt data =
     (case data of
        PStr s \<Rightarrow>
          except_classes [JSONDecodeError, ValueError]
            (and_then (loads s) (\<lambda>parsed_data. handle_claude_response rt parsed_data))
            (\<lambda>e. Inr data)
      | PDict d \<Rightarrow> handle_claude_response rt data
      | _ \<Rightarrow> and_then (py_str rt data) (\<lambda>s. Inr (PStr s)))"

definition generate_response ::
  "(string \<Rightarrow> exc + pyval) \<Rightarrow> (pyval \<Rightarrow> exc + string) \<Rightarrow> pyval \<Rightarrow> exc + pyval" where
  "generate_response loads rt data =
     except_Exception (generate_body loads rt data)
       (\<lambda>e. Inr (PStr (error_prefix @ exc_str e)))"

section \<open>The completion client: \<^verbatim>\<open>claude_api.py\<close>\<close>

text \<open>
  What the process reads from outside: the environment variable with the API key, the HTTP
  call (\<^verbatim>\<open>requests.post\<close> with its URL, JSON body, headers and timeout, giving a response
  or raising) and the prompt store (\<^verbatim>\<open>get_prompt_content\<close>, which reads the YAML file and
  gives the template or raises).
\<close>

record http_response =
  status_code :: int
  response_text :: string
  response_json :: "exc + pyval"

record world =
  env_api_key :: "string option"
  post :: "string \<Rightarrow> pyval \<Rightarrow> (string \<times> string) list \<Rightarrow> nat \<Rightarrow> exc + http_response"
  get_prompt_content :: "string \<Rightarrow> exc + string"

definition CLAUDE_API_URL :: string where
  "CLAUDE_API_URL = ''https://api.anthropic.com/v1/messages''"

definition CLAUDE_MODEL :: string where
  "CLAUDE_MODEL = ''claude-3-5-sonnet-20241022''"

definition get_claude_api_key :: "world \<Rightarrow> exc + string" where
  "get_claude_api_key w =
     (case env_api_key w of
        None \<Rightarrow>
          Inl (Exc ValueError
            ''CLAUDE_API_KEY environment variable not set. Please check your .env file.'')
      | Some api_key \<Rightarrow>
          if api_key = [] then
            Inl (Exc ValueError
              ''CLAUDE_API_KEY environment variable not set. Please check your .env file.'')
          else Inr api_key)"

fun is_list :: "pyval \<Rightarrow> bool" where
  "is_list (PList xs) = True"
| "is_list v = False"

fun list_items :: "pyval \<Rightarrow> pyval list" where
  "list_items (PList xs) = xs"
| "list_items v = []"

text \<open>\<^verbatim>\<open>len(obj)\<close>: a string, a list and a dict have a length.\<close>

fun py_len :: "pyval \<Rightarrow> exc + nat" where
  "py_len (PStr s) = Inr (length s)"
| "py_len (PList xs) = Inr (length xs)"
| "py_len (PDict d) = Inr (length d)"
| "py_len v =
     Inl (Exc TypeError (''object of type '' @ quoted (type_name v) @ '' has no len()''))"

text \<open>
  What \<^verbatim>\<open>send_claude_request\<close> does with the response of the HTTP call. The index \<open>0\<close> is
  read only from a list that is not empty.
\<close>

definition read_response :: "http_response \<Rightarrow> exc + pyval" where
  "read_response response =
     (if status_code response = 200 then
        and_then (response_json response) (\<lambda>response_data.
        and_then (py_get response_data ''content'' (PList [])) (\<lambda>content.
          if py_truthy content \<and> is_list content \<and> length (list_items content) > 0 then
            py_get (list_items content ! 0) ''text'' (PStr [])
          else Inr PNone))
      else Inr PNone)"

definition request_headers :: "string \<Rightarrow> (string \<times> string) list" where
  "request_headers api_key =
     [(''Content-Type'', ''application/json''),
      (''x-api-key'', api_key),
      (''anthropic-version'', ''2023-06-01'')]"

definition send_claude_request :: "world \<Rightarrow> pyval \<Rightarrow> exc + pyval" where
  "send_claude_request w payload =
     except_Exception
       (except_classes [RequestException]
          (and_then (get_claude_api_key w) (\<lambda>api_key.
           and_then (post w CLAUDE_API_URL payload (request_headers api_key) 120)
             read_response))
          (\<lambda>e. Inr PNone))
       (\<lambda>e. Inr PNone)"

definition combined_prompt :: "string \<Rightarrow> string \<Rightarrow> string \<Rightarrow> string" where
  "combined_prompt base_prompt customer_info customer_prompt =
     base_prompt @ [CHR 0x0A, CHR 0x0A] @
     ''            Customer Information:'' @ [CHR 0x0A] @
     ''            '' @ customer_info @ [CHR 0x0A, CHR 0x0A] @
     ''            Customer Request:'' @ [CHR 0x0A] @
     ''            '' @ customer_prompt"

definition request_payload :: "string \<Rightarrow> pyval" where
  "request_payload prompt_text =
     PDict [(''model'', PStr CLAUDE_MODEL),
            (''max_tokens'', PInt 2048),
            (''messages'',
               PList [PDict [(''role'', PStr ''user''), (''content'', PStr prompt_text)]])]"

definition analyze_customer_request :: "world \<Rightarrow> string \<Rightarrow> string \<Rightarrow> string \<Rightarrow> exc + pyval" where
  "analyze_customer_request w customer_info customer_prompt yaml_prompt_key =
     except_Exception
       (and_then (get_prompt_content w yaml_prompt_key) (\<lambda>base_prompt.
        and_then (send_claude_request w
                    (request_payload (combined_prompt base_prompt customer_info customer_prompt)))
          (\<lambda>response.
             if py_truthy response then and_then (py_len response) (\<lambda>n. Inr response)
             else Inr PNone)))
       (\<lambda>e. Inr PNone)"

definition process_prompt :: "world \<Rightarrow> string \<Rightarrow> string \<Rightarrow> string \<Rightarrow> exc + pyval" where
  "process_prompt w prompt customer_info yaml_prompt_key =
     analyze_customer_request w customer_info prompt yaml_prompt_key"

section \<open>The gateway: \<^verbatim>\<open>main.py\<close>\<close>

text \<open>
  \<^verbatim>\<open>handle_prompt\<close> calls \<^verbatim>\<open>process_prompt(input.prompt)\<close>, so the customer information is
  empty and the template key is the default one. The result is the dict the handler returns.
  \<open>handle_prompt_on\<close> is the handler given what that call did: a value, or an exception
  raised inside the \<^verbatim>\<open>try\<close> block.
\<close>

definition handle_prompt_on ::
  "exc + pyval \<Rightarrow> (string \<Rightarrow> exc + pyval) \<Rightarrow> (pyval \<Rightarrow> exc + string) \<Rightarrow> exc + pyval" where
  "handle_prompt_on outcome loads rt =
     except_Exception
       (and_then outcome (\<lambda>claude_output.
          if claude_output = PNone then
            Inr (PDict [(''status'', PStr ''error''),
                        (''message'', PStr ''Failed to get response from Claude API'')])
          else
            and_then (generate_response loads rt claude_output) (\<lambda>response.
              Inr (PDict [(''status'', PStr ''success''), (''response'', response)]))))
       (\<lambda>e. Inr (PDict [(''status'', PStr ''error''), (''message'', PStr (exc_str e))]))"

definition handle_prompt ::
  "world \<Rightarrow> (string \<Rightarrow> exc + pyval) \<Rightarrow> (pyval \<Rightarrow> exc + string) \<Rightarrow> string \<Rightarrow> exc + pyval" where
  "handle_prompt w loads rt prompt =
     handle_prompt_on (process_prompt w prompt [] ''repair_analysis'') loads rt"

section \<open>Lemmas on the interpreter\<close>

subsection \<open>A dict through \<^verbatim>\<open>handle_claude_response\<close>\<close>

text \<open>
  On a dict the loop collects exactly the required fields that are not keys, so the body
  of the function is the check for missing fields, the log line and the decision rules.
\<close>

lemma collect_missing_dict:
  "collect_missing (PDict d) fs acc = Inr (acc @ filter (\<lambda>f. f \<notin> set (map fst d)) fs)"
  by (induction fs arbitrary: acc) (simp_all add: and_then_def)

lemma handle_body_dict:
  "handle_body rt (PDict d) =
     (if filter (\<lambda>f. f \<notin> set (map fst d)) required_fields \<noteq> []
      then Inl (Exc ValueError
             (missing_fields_message (filter (\<lambda>f. f \<notin> set (map fst d)) required_fields)))
      else and_then (py_lower (dict_get d ''complexity_level'' (PStr [])))
             (\<lambda>complexity_level.
                and_then (py_str rt (dict_get d ''parts_needed'' PNone)) (\<lambda>logged_parts.
                and_then (py_str rt (dict_get d ''further_inquiry'' PNone)) (\<lambda>logged_inquiry.
                  decision_logic rt (dict_get d ''parts_needed'' PNone) complexity_level
                    (dict_get d ''further_inquiry'' PNone)
                    (dict_get d ''further_questions'' (PStr []))
                    (dict_get d ''instructions'' (PStr []))))))"
  by (simp add: handle_body_def collect_missing_dict and_then_def)

lemma key_present: "map_of d k = Some v \<Longrightarrow> k \<in> set (map fst d)"
  by (metis map_of_eq_None_iff option.distinct(1) set_map)

lemma handle_body_complete:
  assumes "map_of d ''parts_needed'' = Some p"
    and "map_of d ''complexity_level'' = Some (PStr s)"
    and "map_of d ''further_inquiry'' = Some i"
    and "py_str rt p = Inr logged_parts"
    and "py_str rt i = Inr logged_inquiry"
  shows "handle_body rt (PDict d) =
           decision_logic rt p (map lower_char s) i
             (dict_get d ''further_questions'' (PStr []))
             (dict_get d ''instructions'' (PStr []))"
  using assms key_present[OF assms(1)] key_present[OF assms(2)] key_present[OF assms(3)]
  by (simp add: handle_body_dict required_fields_def dict_get_def and_then_def)

lemma missing_filter:
  "filter (\<lambda>f. f \<notin> set (map fst d)) fs = filter (\<lambda>f. map_of d f = None) fs"
  by (rule filter_cong) (simp_all add: map_of_eq_None_iff)

lemma validate_fields:
  assumes "validate_claude_response_structure d"
  shows "\<exists>b s i. map_of d ''parts_needed'' = Some (PBool b) \<and>
           map_of d ''complexity_level'' = Some (PStr s) \<and>
           map_of d ''further_inquiry'' = Some (PBool i) \<and>
           map lower_char s \<in> set valid_complexity"
  using assms
  by (auto simp: validate_claude_response_structure_def required_field_types_def
        split: option.splits if_splits pyval.splits
        elim!: is_bool.elims is_str.elims)

text \<open>Printing a bool for the log line does not raise, whatever the runtime.\<close>

lemma py_str_bool: "py_str rt (PBool b) = Inr (if b then ''True'' else ''False'')"
  by simp

subsection \<open>Values that are not dicts\<close>

text \<open>
  On a string the membership test is a substring test and on a list it is a test for an
  element; neither raises. Every value that is not a dict raises somewhere in the body: at
  the membership test, at the check for missing fields, or at the first \<^verbatim>\<open>.get\<close>.
\<close>

lemma collect_missing_str:
  "collect_missing (PStr s) fs acc = Inr (acc @ filter (\<lambda>f. \<not> sublist f s) fs)"
  by (induction fs arbitrary: acc) (simp_all add: and_then_def)

lemma collect_missing_list:
  "collect_missing (PList xs) fs acc = Inr (acc @ filter (\<lambda>f. PStr f \<notin> set xs) fs)"
  by (induction fs arbitrary: acc) (simp_all add: and_then_def)

lemma handle_body_non_dict:
  assumes "\<forall>d. v \<noteq> PDict d"
  shows "\<exists>e. handle_body rt v = Inl e"
proof (cases v)
  case (PStr s)
  then show ?thesis
    by (simp add: handle_body_def collect_missing_str and_then_def)
next
  case (PList xs)
  then show ?thesis
    by (simp add: handle_body_def collect_missing_list and_then_def)
next
  case (PDict d)
  with assms show ?thesis by simp
qed (simp_all add: handle_body_def required_fields_def and_then_def)

subsection \<open>The two exception handlers\<close>

lemma except_Exception_returns:
  "(\<forall>e. \<exists>v. handler e = Inr v) \<Longrightarrow> \<exists>v. except_Exception body handler = Inr v"
  by (cases body) (simp_all add: except_Exception_def)

lemma handle_Inr: "handle_body rt r = Inr v \<Longrightarrow> handle_claude_response rt r = Inr v"
  by (simp add: handle_claude_response_def except_Exception_def)

lemma handle_Inl:
  "handle_body rt r = Inl e \<Longrightarrow>
   handle_claude_response rt r = Inr (PStr (error_prefix @ exc_str e))"
  by (simp add: handle_claude_response_def except_Exception_def)

lemma generate_dict:
  "generate_response loads rt (PDict d) = handle_claude_response rt (PDict d)"
  by (simp add: generate_response_def generate_body_def handle_claude_response_def
        except_Exception_def split: sum.splits)

lemma generate_parsed:
  "loads s = Inr v \<Longrightarrow> generate_response loads rt (PStr s) = handle_claude_response rt v"
  by (simp add: generate_response_def generate_body_def handle_claude_response_def
        except_Exception_def except_classes_def and_then_def split: sum.splits)

lemma generate_parse_error:
  assumes "loads raw = Inl e"
  shows "generate_response loads rt (PStr raw) =
           Inr (PStr (if is_subclass (exc_class_of e) ValueError then raw
                      else error_prefix @ exc_str e))"
  using assms
  by (simp add: generate_response_def generate_body_def except_Exception_def
        except_classes_def and_then_def is_subclass_def)

lemma generate_response_returns: "\<exists>m. generate_response loads rt data = Inr m"
  unfolding generate_response_def by (rule except_Exception_returns) simp

lemma process_prompt_returns:
  "\<exists>v. process_prompt w prompt customer_info yaml_prompt_key = Inr v"
  unfolding process_prompt_def analyze_customer_request_def
  by (rule except_Exception_returns) simp

subsection \<open>What the interpreter can return for a dict\<close>







subsection \<open>A log line that raises\<close>

text \<open>
  When the runtime cannot print an integer \<open>parts_needed\<close>, the log line before the
  decision rules raises and the interpreter returns the text of that exception.
\<close>

lemma fallback_log_raises:
  assumes "rt (PInt n) = Inl e"
  shows "handle_claude_response rt
           (PDict [(''parts_needed'', PInt n), (''complexity_level'', PStr ''low''),
                   (''further_inquiry'', PBool False)])
         = Inr (PStr (error_prefix @ exc_str e))"
  using assms
  by (simp add: handle_claude_response_def handle_body_def required_fields_def and_then_def
        except_Exception_def dict_get_def)

subsection \<open>The response of the completion service\<close>

lemma send_claude_request_ok:
  assumes "env_api_key w = Some k" and "k \<noteq> []"
    and "post w CLAUDE_API_URL payload (request_headers k) 120 = Inr response"
  shows "send_claude_request w payload =
           Inr (case read_response response of Inl e \<Rightarrow> PNone | Inr v \<Rightarrow> v)"
  using assms
  by (simp add: send_claude_request_def get_claude_api_key_def and_then_def
        except_classes_def except_Exception_def split: sum.splits)

lemma read_response_200:
  assumes "status_code response = 200"
  shows "(case read_response response of Inl e \<Rightarrow> PNone | Inr v \<Rightarrow> v) =
           (case response_json response of
              Inr (PDict body) \<Rightarrow>
                (case dict_get body ''content'' (PList []) of
                   PList (PDict item # rest) \<Rightarrow> dict_get item ''text'' (PStr [])
                 | _ \<Rightarrow> PNone)
            | _ \<Rightarrow> PNone)"
proof (cases "response_json response")
  case (Inl e)
  with assms show ?thesis by (simp add: read_response_def and_then_def)
next
  case (Inr data)
  show ?thesis
  proof (cases data)
    case (PDict body)
    show ?thesis
    proof (cases "dict_get body ''content'' (PList [])")
      case (PList xs)
      show ?thesis
      proof (cases xs)
        case Nil
        with assms Inr PDict PList show ?thesis
          by (simp add: read_response_def and_then_def)
      next
        case (Cons x rest)
        with assms Inr PDict PList show ?thesis
          by (cases x) (simp_all add: read_response_def and_then_def)
      qed
    qed (use assms Inr PDict in \<open>simp_all add: read_response_def and_then_def\<close>)
  qed (use assms Inr in \<open>simp_all add: read_response_def and_then_def\<close>)
qed

section \<open>The claims\<close>

subsection \<open>C1: records with missing or ill-typed fields\<close>

text \<open>
  Claim C1 as stated does not hold. \<open>handle_claude_response\<close> checks only that the three
  required keys are present; the types and the value of \<open>complexity_level\<close> are checked by
  \<open>validate_claude_response_structure\<close>, which the interpreter does not call. A record with
  \<open>further_inquiry = "yes"\<close> is invalid, reaches the decision rules and gets their message for
  an unclear inquiry status; a record with \<open>complexity_level = "extreme"\<close> and
  \<open>parts_needed = true\<close> is invalid and gets the contractor-dispatch message.
\<close>

theorem C1_counterexample:
  "\<not> validate_claude_response_structure
       [(''parts_needed'', PBool False), (''complexity_level'', PStr ''low''),
        (''further_inquiry'', PStr ''yes'')] \<and>
   handle_body (\<lambda>v. Inr ''?'')
     (PDict [(''parts_needed'', PBool False), (''complexity_level'', PStr ''low''),
             (''further_inquiry'', PStr ''yes'')])
     = Inr (PStr ''Unable to determine next steps due to unclear inquiry status.'') \<and>
   handle_claude_response (\<lambda>v. Inr ''?'')
     (PDict [(''parts_needed'', PBool False), (''complexity_level'', PStr ''low''),
             (''further_inquiry'', PStr ''yes'')])
     = Inr (PStr ''Unable to determine next steps due to unclear inquiry status.'') \<and>
   \<not> validate_claude_response_structure
       [(''parts_needed'', PBool True), (''complexity_level'', PStr ''extreme''),
        (''further_inquiry'', PBool False)] \<and>
   handle_claude_response (\<lambda>v. Inr ''?'')
     (PDict [(''parts_needed'', PBool True), (''complexity_level'', PStr ''extreme''),
             (''further_inquiry'', PBool False)])
     = Inr (PStr ''It seems your issue is rather complex, would you like for me to dispatch a contractor to your address?'')"
  by (simp add: validate_claude_response_structure_def required_field_types_def
        valid_complexity_def lower_char_def handle_claude_response_def handle_body_def
        required_fields_def and_then_def except_Exception_def decision_logic_def
        dict_get_def unclear_inquiry_message_def contractor_message_def)

text \<open>
  Claim C1, amended. When at least one of \<open>parts_needed\<close>, \<open>complexity_level\<close>,
  \<open>further_inquiry\<close> is not a key of the record, the body raises \<^verbatim>\<open>ValueError\<close> at the check,
  before any field is read and before the decision rules, and the interpreter returns
  \<^verbatim>\<open>Error processing repair analysis: Missing required fields in Claude response: [...]\<close>
  with the missing names in the order of \<open>required_fields\<close>.
\<close>

theorem C1_missing_field_rejected:
  assumes "map_of d ''parts_needed'' = None \<or> map_of d ''complexity_level'' = None \<or>
           map_of d ''further_inquiry'' = None"
  shows "handle_body rt (PDict d) =
           Inl (Exc ValueError
                  (missing_fields_message (filter (\<lambda>f. map_of d f = None) required_fields))) \<and>
         handle_claude_response rt (PDict d) =
           Inr (PStr (''Error processing repair analysis: '' @
                  missing_fields_message (filter (\<lambda>f. map_of d f = None) required_fields))) \<and>
         generate_response loads rt (PDict d) = handle_claude_response rt (PDict d)"
proof -
  from assms have "filter (\<lambda>f. map_of d f = None) required_fields \<noteq> []"
    by (auto simp: required_fields_def)
  then have b: "handle_body rt (PDict d) =
           Inl (Exc ValueError
                  (missing_fields_message (filter (\<lambda>f. map_of d f = None) required_fields)))"
    unfolding handle_body_dict missing_filter by simp
  from handle_Inl[OF b] b show ?thesis
    by (simp add: generate_dict error_prefix_def)
qed

text \<open>
  A record without \<open>complexity_level\<close>.
\<close>

theorem C1_missing_field_rejected_witness:
  "map_of [(''parts_needed'', PBool True), (''further_inquiry'', PBool False)]
     ''complexity_level'' = None \<and>
   handle_body (\<lambda>v. Inr ''?'')
     (PDict [(''parts_needed'', PBool True), (''further_inquiry'', PBool False)])
     = Inl (Exc ValueError
         ''Missing required fields in Claude response: ['complexity_level']'') \<and>
   handle_claude_response (\<lambda>v. Inr ''?'')
     (PDict [(''parts_needed'', PBool True), (''further_inquiry'', PBool False)])
     = Inr (PStr ''Error processing repair analysis: Missing required fields in Claude response: ['complexity_level']'')"
proof -
  have h: "map_of [(''parts_needed'', PBool True), (''further_inquiry'', PBool False)]
             ''parts_needed'' = None \<or>
           map_of [(''parts_needed'', PBool True), (''further_inquiry'', PBool False)]
             ''complexity_level'' = None \<or>
           map_of [(''parts_needed'', PBool True), (''further_inquiry'', PBool False)]
             ''further_inquiry'' = None"
    by simp
  show ?thesis
    using C1_missing_field_rejected [OF h, of "\<lambda>v. Inr ''?''"]
    by (simp add: required_fields_def missing_fields_message_def repr_field_list_def
          quoted_def)
qed

subsection \<open>C2: the output is a non-empty string\<close>




subsection \<open>C3: contractor dispatch\<close>

text \<open>
  Claim C3. A well-formed record, one that \<open>validate_claude_response_structure\<close> accepts,
  in which \<open>parts_needed\<close> is true or \<open>complexity_level\<close> is \<open>high\<close> in any mix of upper and
  lower case, gets the contractor-dispatch message, whatever \<open>further_inquiry\<close>,
  \<open>further_questions\<close> and \<open>instructions\<close> hold. This is so for the record given to
  \<open>handle_claude_response\<close>, given to \<open>generate_response\<close> as a dict, and given as a raw text
  that \<^verbatim>\<open>json.loads\<close> parses to it.
\<close>

theorem C3_contractor_dispatch:
  assumes "validate_claude_response_structure d"
    and "map_of d ''parts_needed'' = Some (PBool True) \<or>
         (\<exists>s. map_of d ''complexity_level'' = Some (PStr s) \<and> map lower_char s = ''high'')"
  shows "handle_claude_response rt (PDict d) = Inr (PStr contractor_message) \<and>
         generate_response loads rt (PDict d) = Inr (PStr contractor_message) \<and>
         (loads raw = Inr (PDict d) \<longrightarrow>
            generate_response loads rt (PStr raw) = Inr (PStr contractor_message))"
proof -
  from validate_fields[OF assms(1)] obtain b s i where
    f: "map_of d ''parts_needed'' = Some (PBool b)"
       "map_of d ''complexity_level'' = Some (PStr s)"
       "map_of d ''further_inquiry'' = Some (PBool i)"
    by blast
  from assms(2) f have "b \<or> map lower_char s = ''high''" by auto
  then have "handle_body rt (PDict d) = Inr (PStr contractor_message)"
    by (auto simp: handle_body_complete[OF f py_str_bool py_str_bool] decision_logic_def)
  then have h: "handle_claude_response rt (PDict d) = Inr (PStr contractor_message)"
    by (rule handle_Inr)
  then show ?thesis by (simp add: generate_dict generate_parsed)
qed

text \<open>
  The record of the witness has \<open>complexity_level = "HIGH"\<close> and \<open>parts_needed = false\<close>.
\<close>

theorem C3_contractor_dispatch_witness:
  \<open>validate_claude_response_structure
     [(''parts_needed'', PBool False), (''complexity_level'', PStr ''HIGH''),
      (''further_inquiry'', PBool True), (''further_questions'', PStr ''Which room?'')] \<and>
   map lower_char ''HIGH'' = ''high'' \<and>
   handle_claude_response (\<lambda>v. Inr ''?'')
     (PDict [(''parts_needed'', PBool False), (''complexity_level'', PStr ''HIGH''),
             (''further_inquiry'', PBool True), (''further_questions'', PStr ''Which room?'')])
     = Inr (PStr contractor_message) \<and>
   generate_response
     (\<lambda>t. if t = ''{"parts_needed": false, "complexity_level": "HIGH", "further_inquiry": true, "further_questions": "Which room?"}''
          then Inr (PDict [(''parts_needed'', PBool False), (''complexity_level'', PStr ''HIGH''),
                  (''further_inquiry'', PBool True), (''further_questions'', PStr ''Which room?'')])
          else Inl (Exc JSONDecodeError ''Expecting value''))
     (\<lambda>v. Inr ''?'')
     (PStr ''{"parts_needed": false, "complexity_level": "HIGH", "further_inquiry": true, "further_questions": "Which room?"}'')
     = Inr (PStr contractor_message)\<close>
proof -
  let ?d = "[(''parts_needed'', PBool False), (''complexity_level'', PStr ''HIGH''),
             (''further_inquiry'', PBool True), (''further_questions'', PStr ''Which room?'')]"
  have v: "validate_claude_response_structure ?d"
    by (simp add: validate_claude_response_structure_def required_field_types_def
          valid_complexity_def lower_char_def)
  have l: "map lower_char ''HIGH'' = ''high''"
    by (simp add: lower_char_def)
  have h: "map_of ?d ''parts_needed'' = Some (PBool True) \<or>
           (\<exists>s. map_of ?d ''complexity_level'' = Some (PStr s) \<and> map lower_char s = ''high'')"
    using l by simp
  show ?thesis
    using C3_contractor_dispatch [OF v h] v l by simp
qed

subsection \<open>C4: text that does not parse\<close>

text \<open>
  Claim C4 as stated does not hold for every text that cannot be parsed. The inner handler
  of \<open>generate_response\<close> catches \<^verbatim>\<open>JSONDecodeError\<close> and \<^verbatim>\<open>ValueError\<close> only. On 995 opening
  brackets \<^verbatim>\<open>json.loads\<close> raises \<^verbatim>\<open>RecursionError\<close>, which reaches the outer handler: the
  output is the diagnostic string and not the text.
\<close>

theorem C4_counterexample:
  "generate_response
     (\<lambda>t. Inl (Exc RecursionError
        ''maximum recursion depth exceeded while decoding a JSON array from a unicode string''))
     (\<lambda>v. Inr ''?'') (PStr (replicate 995 (CHR ''['')))
   = Inr (PStr ''Error processing repair analysis: maximum recursion depth exceeded while decoding a JSON array from a unicode string'') \<and>
   ''Error processing repair analysis: maximum recursion depth exceeded while decoding a JSON array from a unicode string''
     \<noteq> replicate 995 (CHR ''['')"
proof -
  let ?m = "''maximum recursion depth exceeded while decoding a JSON array from a unicode string''"
  let ?loads = "\<lambda>t::string. (Inl (Exc RecursionError ?m) :: exc + pyval)"
  have "generate_response ?loads (\<lambda>v. Inr ''?'') (PStr (replicate 995 (CHR ''[''))) =
          Inr (PStr (if is_subclass (exc_class_of (Exc RecursionError ?m)) ValueError
                     then replicate 995 (CHR ''['')
                     else error_prefix @ exc_str (Exc RecursionError ?m)))"
    by (rule generate_parse_error) (rule refl)
  moreover have "\<not> is_subclass (exc_class_of (Exc RecursionError ?m)) ValueError"
    by (simp add: is_subclass_def)
  moreover have "error_prefix @ exc_str (Exc RecursionError ?m) =
    ''Error processing repair analysis: maximum recursion depth exceeded while decoding a JSON array from a unicode string''"
    by (simp add: error_prefix_def)
  ultimately have a: "generate_response ?loads (\<lambda>v. Inr ''?'') (PStr (replicate 995 (CHR ''[''))) =
    Inr (PStr ''Error processing repair analysis: maximum recursion depth exceeded while decoding a JSON array from a unicode string'')"
    by (simp only: if_False)
  have e: "CHR ''E'' \<in> set ''Error processing repair analysis: maximum recursion depth exceeded while decoding a JSON array from a unicode string''"
    by simp
  have n: "CHR ''E'' \<notin> set (replicate 995 (CHR ''[''))"
    by (simp only: in_set_replicate) simp
  from e n have b: "''Error processing repair analysis: maximum recursion depth exceeded while decoding a JSON array from a unicode string''
     \<noteq> replicate 995 (CHR ''['')"
    by metis
  from a b show ?thesis by (rule conjI)
qed

text \<open>
  Claim C4, amended. A raw string on which \<^verbatim>\<open>json.loads\<close> raises \<^verbatim>\<open>JSONDecodeError\<close> or
  another \<^verbatim>\<open>ValueError\<close> is returned unmodified; when \<^verbatim>\<open>json.loads\<close> raises any other
  exception, the output is \<^verbatim>\<open>Error processing repair analysis: \<close> followed by the text of
  the exception.
\<close>

theorem C4_parse_failure:
  assumes "loads raw = Inl e"
  shows "(exc_class_of e = JSONDecodeError \<or> exc_class_of e = ValueError \<longrightarrow>
            generate_response loads rt (PStr raw) = Inr (PStr raw)) \<and>
         (exc_class_of e \<noteq> JSONDecodeError \<and> exc_class_of e \<noteq> ValueError \<longrightarrow>
            generate_response loads rt (PStr raw) =
              Inr (PStr (''Error processing repair analysis: '' @ exc_str e)))"
  using generate_parse_error[of loads raw e rt, OF assms]
  by (auto simp: is_subclass_def error_prefix_def)

text \<open>
  The example of the specification, and 2000 opening brackets.
\<close>

theorem C4_parse_failure_witness:
  "generate_response
     (\<lambda>t. Inl (Exc JSONDecodeError ''Expecting value: line 1 column 1 (char 0)''))
     (\<lambda>v. Inr ''?'')
     (PStr ''Sorry, I cannot help with that.'')
   = Inr (PStr ''Sorry, I cannot help with that.'') \<and>
   generate_response
     (\<lambda>t. Inl (Exc RecursionError
        ''maximum recursion depth exceeded while decoding a JSON array from a unicode string''))
     (\<lambda>v. Inr ''?'')
     (PStr (replicate 2000 (CHR ''['')))
   = Inr (PStr ''Error processing repair analysis: maximum recursion depth exceeded while decoding a JSON array from a unicode string'')"
proof -
  have a: "generate_response
     (\<lambda>t. Inl (Exc JSONDecodeError ''Expecting value: line 1 column 1 (char 0)''))
     (\<lambda>v. Inr ''?'')
     (PStr ''Sorry, I cannot help with that.'')
   = Inr (PStr ''Sorry, I cannot help with that.'')"
    using C4_parse_failure
      [of "\<lambda>t. Inl (Exc JSONDecodeError ''Expecting value: line 1 column 1 (char 0)'')"
          "''Sorry, I cannot help with that.''"
          "Exc JSONDecodeError ''Expecting value: line 1 column 1 (char 0)''"
          "\<lambda>v. Inr ''?''"]
    by simp
  let ?m = "''maximum recursion depth exceeded while decoding a JSON array from a unicode string''"
  let ?loads = "\<lambda>t::string. (Inl (Exc RecursionError ?m) :: exc + pyval)"
  have l: "?loads (replicate 2000 (CHR ''['')) = Inl (Exc RecursionError ?m)"
    by (rule refl)
  have c: "exc_class_of (Exc RecursionError ?m) \<noteq> JSONDecodeError \<and>
           exc_class_of (Exc RecursionError ?m) \<noteq> ValueError"
    by simp
  from C4_parse_failure [of ?loads "replicate 2000 (CHR ''['')" "Exc RecursionError ?m"
      "\<lambda>v. Inr ''?''", OF l]
  have "exc_class_of (Exc RecursionError ?m) \<noteq> JSONDecodeError \<and>
        exc_class_of (Exc RecursionError ?m) \<noteq> ValueError \<longrightarrow>
        generate_response ?loads (\<lambda>v. Inr ''?'') (PStr (replicate 2000 (CHR ''['')))
          = Inr (PStr (''Error processing repair analysis: '' @ exc_str (Exc RecursionError ?m)))"
    by (rule conjunct2)
  from this c have b': "generate_response ?loads (\<lambda>v. Inr ''?'')
          (PStr (replicate 2000 (CHR ''['')))
          = Inr (PStr (''Error processing repair analysis: '' @ exc_str (Exc RecursionError ?m)))"
    by (rule mp)
  have e: "''Error processing repair analysis: '' @ exc_str (Exc RecursionError ?m) =
    ''Error processing repair analysis: maximum recursion depth exceeded while decoding a JSON array from a unicode string''"
    by simp
  note b = b'[unfolded e]
  from a b show ?thesis by (rule conjI)
qed

subsection \<open>C5: no exception leaves the interpreter\<close>

text \<open>
  Claim C5 says that every exception raised during parsing becomes a diagnostic string.
  The exception that parsing raises on a text that is not JSON does not: the inner handler
  of \<open>generate_response\<close> catches it and returns the text itself.
\<close>

theorem C5_counterexample:
  "generate_response
     (\<lambda>t. Inl (Exc JSONDecodeError ''Expecting value: line 1 column 1 (char 0)''))
     (\<lambda>v. Inr ''?'') (PStr ''The tap needs a new washer.'')
   = Inr (PStr ''The tap needs a new washer.'') \<and>
   \<not> prefix ''Error processing repair analysis'' ''The tap needs a new washer.''"
  by (simp add: generate_response_def generate_body_def except_Exception_def
        except_classes_def and_then_def is_subclass_def)

text \<open>
  Claim C5, amended. For every input the interpreter returns a value and propagates no
  exception. A \<^verbatim>\<open>JSONDecodeError\<close> or other \<^verbatim>\<open>ValueError\<close> raised by the parse is caught by the
  inner handler, and the raw string is returned; any other exception of the parse, and
  every exception that leaves the body of \<open>generate_response\<close> or of
  \<open>handle_claude_response\<close>, is caught by the outer handler and becomes the string
  \<^verbatim>\<open>Error processing repair analysis: \<close> followed by the text of the exception.
\<close>

theorem C5_no_exception_escapes:
  "(\<exists>v. generate_response loads rt data = Inr v) \<and>
   (\<exists>v. handle_claude_response rt response = Inr v) \<and>
   (\<forall>raw e. loads raw = Inl e \<longrightarrow>
      generate_response loads rt (PStr raw) =
        Inr (PStr (if is_subclass (exc_class_of e) ValueError then raw
                   else ''Error processing repair analysis: '' @ exc_str e))) \<and>
   (\<forall>e. generate_body loads rt data = Inl e \<longrightarrow>
      generate_response loads rt data =
        Inr (PStr (''Error processing repair analysis: '' @ exc_str e))) \<and>
   (\<forall>e. handle_body rt response = Inl e \<longrightarrow>
      handle_claude_response rt response =
        Inr (PStr (''Error processing repair analysis: '' @ exc_str e)))"
proof -
  have a: "\<exists>v. generate_response loads rt data = Inr v"
    unfolding generate_response_def by (rule except_Exception_returns) simp
  have b: "\<exists>v. handle_claude_response rt response = Inr v"
    unfolding handle_claude_response_def by (rule except_Exception_returns) simp
  have p: "\<forall>raw e. loads raw = Inl e \<longrightarrow>
      generate_response loads rt (PStr raw) =
        Inr (PStr (if is_subclass (exc_class_of e) ValueError then raw
                   else ''Error processing repair analysis: '' @ exc_str e))"
  proof (intro allI impI)
    fix raw e assume "loads raw = Inl e"
    from generate_parse_error[of loads raw e rt, OF this]
    show "generate_response loads rt (PStr raw) =
        Inr (PStr (if is_subclass (exc_class_of e) ValueError then raw
                   else ''Error processing repair analysis: '' @ exc_str e))"
      by (simp add: error_prefix_def)
  qed
  have c: "\<forall>e. generate_body loads rt data = Inl e \<longrightarrow>
      generate_response loads rt data =
        Inr (PStr (''Error processing repair analysis: '' @ exc_str e))"
    by (simp add: generate_response_def except_Exception_def error_prefix_def)
  have d: "\<forall>e. handle_body rt response = Inl e \<longrightarrow>
      handle_claude_response rt response =
        Inr (PStr (''Error processing repair analysis: '' @ exc_str e))"
    by (simp add: handle_claude_response_def except_Exception_def error_prefix_def)
  from a b p c d show ?thesis by blast
qed

text \<open>
  A text that does not parse; an integer of 5001 digits, on which \<^verbatim>\<open>str\<close> raises; and an
  empty list in the place of the record.
\<close>

theorem C5_no_exception_escapes_witness:
  "generate_response (\<lambda>t. Inl (Exc JSONDecodeError ''Expecting value: line 1 column 1 (char 0)''))
     (\<lambda>v. Inl (Exc ValueError ''Exceeds the limit (4300 digits) for integer string conversion; use sys.set_int_max_str_digits() to increase the limit''))
     (PStr ''not json'')
   = Inr (PStr ''not json'') \<and>
   generate_body (\<lambda>t. Inl (Exc JSONDecodeError ''Expecting value: line 1 column 1 (char 0)''))
     (\<lambda>v. Inl (Exc ValueError ''Exceeds the limit (4300 digits) for integer string conversion; use sys.set_int_max_str_digits() to increase the limit''))
     (PInt (10 ^ 5000))
   = Inl (Exc ValueError ''Exceeds the limit (4300 digits) for integer string conversion; use sys.set_int_max_str_digits() to increase the limit'') \<and>
   generate_response (\<lambda>t. Inl (Exc JSONDecodeError ''Expecting value: line 1 column 1 (char 0)''))
     (\<lambda>v. Inl (Exc ValueError ''Exceeds the limit (4300 digits) for integer string conversion; use sys.set_int_max_str_digits() to increase the limit''))
     (PInt (10 ^ 5000))
   = Inr (PStr ''Error processing repair analysis: Exceeds the limit (4300 digits) for integer string conversion; use sys.set_int_max_str_digits() to increase the limit'') \<and>
   handle_body
     (\<lambda>v. Inl (Exc ValueError ''Exceeds the limit (4300 digits) for integer string conversion; use sys.set_int_max_str_digits() to increase the limit''))
     (PList [])
   = Inl (Exc ValueError ''Missing required fields in Claude response: ['parts_needed', 'complexity_level', 'further_inquiry']'') \<and>
   handle_claude_response
     (\<lambda>v. Inl (Exc ValueError ''Exceeds the limit (4300 digits) for integer string conversion; use sys.set_int_max_str_digits() to increase the limit''))
     (PList [])
   = Inr (PStr ''Error processing repair analysis: Missing required fields in Claude response: ['parts_needed', 'complexity_level', 'further_inquiry']'')"
proof -
  let ?m = "''Exceeds the limit (4300 digits) for integer string conversion; use sys.set_int_max_str_digits() to increase the limit''"
  let ?n = "''Missing required fields in Claude response: ['parts_needed', 'complexity_level', 'further_inquiry']''"
  let ?j = "Exc JSONDecodeError ''Expecting value: line 1 column 1 (char 0)''"
  let ?loads = "\<lambda>t::string. (Inl ?j :: exc + pyval)"
  let ?rt = "\<lambda>v::pyval. (Inl (Exc ValueError ?m) :: exc + string)"
  have g: "generate_body ?loads ?rt (PInt (10 ^ 5000)) = Inl (Exc ValueError ?m)"
    by (simp only: generate_body_def pyval.case py_str.simps and_then_def sum.case)
  have h: "handle_body ?rt (PList []) = Inl (Exc ValueError ?n)"
    by (simp add: handle_body_def required_fields_def and_then_def missing_fields_message_def
          repr_field_list_def quoted_def)
  have l: "?loads ''not json'' = Inl ?j"
    by simp
  note all = C5_no_exception_escapes [of ?loads ?rt "PInt (10 ^ 5000)" "PList []"]
  from all have "?loads ''not json'' = Inl ?j \<longrightarrow>
      generate_response ?loads ?rt (PStr ''not json'') =
        Inr (PStr (if is_subclass (exc_class_of ?j) ValueError then ''not json''
                   else ''Error processing repair analysis: '' @ exc_str ?j))"
    by blast
  with l have p: "generate_response ?loads ?rt (PStr ''not json'') = Inr (PStr ''not json'')"
    by (simp add: is_subclass_def)
  from all have "generate_body ?loads ?rt (PInt (10 ^ 5000)) = Inl (Exc ValueError ?m) \<longrightarrow>
      generate_response ?loads ?rt (PInt (10 ^ 5000)) =
        Inr (PStr (''Error processing repair analysis: '' @ exc_str (Exc ValueError ?m)))"
    by blast
  from this g have c: "generate_response ?loads ?rt (PInt (10 ^ 5000)) =
        Inr (PStr (''Error processing repair analysis: '' @ exc_str (Exc ValueError ?m)))"
    by (rule mp)
  from all have "handle_body ?rt (PList []) = Inl (Exc ValueError ?n) \<longrightarrow>
      handle_claude_response ?rt (PList []) =
        Inr (PStr (''Error processing repair analysis: '' @ exc_str (Exc ValueError ?n)))"
    by blast
  from this h have d: "handle_claude_response ?rt (PList []) =
        Inr (PStr (''Error processing repair analysis: '' @ exc_str (Exc ValueError ?n)))"
    by (rule mp)
  have e1: "''Error processing repair analysis: '' @ exc_str (Exc ValueError ?m) =
    ''Error processing repair analysis: Exceeds the limit (4300 digits) for integer string conversion; use sys.set_int_max_str_digits() to increase the limit''"
    by simp
  have e2: "''Error processing repair analysis: '' @ exc_str (Exc ValueError ?n) =
    ''Error processing repair analysis: Missing required fields in Claude response: ['parts_needed', 'complexity_level', 'further_inquiry']''"
    by simp
  show ?thesis
    using p g h c[unfolded e1] d[unfolded e2] by (intro conjI)
qed

subsection \<open>C6: the gateway\<close>

text \<open>
  Claim C6. When \<open>process_prompt\<close> gives \<^verbatim>\<open>None\<close>, \<open>handle_prompt\<close> returns status \<open>error\<close>
  with the message \<^verbatim>\<open>Failed to get response from Claude API\<close>; when it gives a text, the
  result is status \<open>success\<close> with the message of \<open>generate_response\<close> on that text. No
  exception leaves the handler: \<open>process_prompt\<close> and \<open>handle_prompt\<close> always return, and an
  exception raised inside the \<^verbatim>\<open>try\<close> block would become status \<open>error\<close> with the text of
  the exception.
\<close>

theorem C6_gateway:
  "(process_prompt w prompt [] ''repair_analysis'' = Inr PNone \<longrightarrow>
      handle_prompt w loads rt prompt =
        Inr (PDict [(''status'', PStr ''error''),
                    (''message'', PStr ''Failed to get response from Claude API'')])) \<and>
   (\<forall>t. process_prompt w prompt [] ''repair_analysis'' = Inr (PStr t) \<longrightarrow>
      (\<exists>m. generate_response loads rt (PStr t) = Inr m \<and>
         handle_prompt w loads rt prompt =
           Inr (PDict [(''status'', PStr ''success''), (''response'', m)]))) \<and>
   (\<exists>v. process_prompt w prompt [] ''repair_analysis'' = Inr v) \<and>
   (\<exists>r. handle_prompt w loads rt prompt = Inr r) \<and>
   (\<forall>e. handle_prompt_on (Inl e) loads rt =
      Inr (PDict [(''status'', PStr ''error''), (''message'', PStr (exc_str e))]))"
proof -
  have a: "process_prompt w prompt [] ''repair_analysis'' = Inr PNone \<longrightarrow>
      handle_prompt w loads rt prompt =
        Inr (PDict [(''status'', PStr ''error''),
                    (''message'', PStr ''Failed to get response from Claude API'')])"
    by (simp add: handle_prompt_def handle_prompt_on_def and_then_def except_Exception_def)
  have b: "\<forall>t. process_prompt w prompt [] ''repair_analysis'' = Inr (PStr t) \<longrightarrow>
      (\<exists>m. generate_response loads rt (PStr t) = Inr m \<and>
         handle_prompt w loads rt prompt =
           Inr (PDict [(''status'', PStr ''success''), (''response'', m)]))"
  proof (intro allI impI)
    fix t assume p: "process_prompt w prompt [] ''repair_analysis'' = Inr (PStr t)"
    from generate_response_returns obtain m where
      m: "generate_response loads rt (PStr t) = Inr m" by blast
    with p have "handle_prompt w loads rt prompt =
                   Inr (PDict [(''status'', PStr ''success''), (''response'', m)])"
      by (simp add: handle_prompt_def handle_prompt_on_def and_then_def except_Exception_def)
    with m show "\<exists>m. generate_response loads rt (PStr t) = Inr m \<and>
         handle_prompt w loads rt prompt =
           Inr (PDict [(''status'', PStr ''success''), (''response'', m)])"
      by blast
  qed
  have c: "\<exists>v. process_prompt w prompt [] ''repair_analysis'' = Inr v"
    by (rule process_prompt_returns)
  have d: "\<exists>r. handle_prompt w loads rt prompt = Inr r"
    unfolding handle_prompt_def handle_prompt_on_def
    by (rule except_Exception_returns) simp
  have e: "\<forall>e. handle_prompt_on (Inl e) loads rt =
      Inr (PDict [(''status'', PStr ''error''), (''message'', PStr (exc_str e))])"
    by (simp add: handle_prompt_on_def and_then_def except_Exception_def)
  from a b c d e show ?thesis by blast
qed

text \<open>
  A world in which the HTTP call times out, and one in which the service answers in
  prose.
\<close>

theorem C6_gateway_witness:
  \<open>process_prompt
     \<lparr>env_api_key = Some ''test-key'',
      post = (\<lambda>url body headers timeout. Inl (Exc RequestException ''Read timed out.'')),
      get_prompt_content = (\<lambda>key. Inr ''Analyse the repair request.'')\<rparr>
     ''The tap drips.'' [] ''repair_analysis'' = Inr PNone \<and>
   handle_prompt
     \<lparr>env_api_key = Some ''test-key'',
      post = (\<lambda>url body headers timeout. Inl (Exc RequestException ''Read timed out.'')),
      get_prompt_content = (\<lambda>key. Inr ''Analyse the repair request.'')\<rparr>
     (\<lambda>t. Inl (Exc JSONDecodeError ''Expecting value: line 1 column 1 (char 0)''))
     (\<lambda>v. Inr ''?'') ''The tap drips.''
   = Inr (PDict [(''status'', PStr ''error''),
                 (''message'', PStr ''Failed to get response from Claude API'')]) \<and>
   process_prompt
     \<lparr>env_api_key = Some ''test-key'',
      post = (\<lambda>url body headers timeout.
                Inr \<lparr>status_code = 200, response_text = '''',
                     response_json =
                       Inr (PDict [(''content'',
                              PList [PDict [(''type'', PStr ''text''),
                                            (''text'', PStr ''Sorry, I cannot help with that.'')]])])\<rparr>),
      get_prompt_content = (\<lambda>key. Inr ''Analyse the repair request.'')\<rparr>
     ''The tap drips.'' [] ''repair_analysis'' = Inr (PStr ''Sorry, I cannot help with that.'') \<and>
   handle_prompt
     \<lparr>env_api_key = Some ''test-key'',
      post = (\<lambda>url body headers timeout.
                Inr \<lparr>status_code = 200, response_text = '''',
                     response_json =
                       Inr (PDict [(''content'',
                              PList [PDict [(''type'', PStr ''text''),
                                            (''text'', PStr ''Sorry, I cannot help with that.'')]])])\<rparr>),
      get_prompt_content = (\<lambda>key. Inr ''Analyse the repair request.'')\<rparr>
     (\<lambda>t. Inl (Exc JSONDecodeError ''Expecting value: line 1 column 1 (char 0)''))
     (\<lambda>v. Inr ''?'') ''The tap drips.''
   = Inr (PDict [(''status'', PStr ''success''),
                 (''response'', PStr ''Sorry, I cannot help with that.'')]) \<and>
   handle_prompt_on (Inl (Exc OtherException ''boom''))
     (\<lambda>t. Inl (Exc JSONDecodeError ''Expecting value: line 1 column 1 (char 0)''))
     (\<lambda>v. Inr ''?'')
   = Inr (PDict [(''status'', PStr ''error''), (''message'', PStr ''boom'')])\<close>
proof -
  let ?w = "\<lparr>env_api_key = Some ''test-key'',
      post = (\<lambda>url body headers timeout. Inl (Exc RequestException ''Read timed out.'')),
      get_prompt_content = (\<lambda>key. Inr ''Analyse the repair request.'')\<rparr>"
  let ?w' = "\<lparr>env_api_key = Some ''test-key'',
      post = (\<lambda>url body headers timeout.
                Inr \<lparr>status_code = 200, response_text = '''',
                     response_json =
                       Inr (PDict [(''content'',
                              PList [PDict [(''type'', PStr ''text''),
                                            (''text'', PStr ''Sorry, I cannot help with that.'')]])])\<rparr>),
      get_prompt_content = (\<lambda>key. Inr ''Analyse the repair request.'')\<rparr>"
  let ?loads = "\<lambda>t::string. (Inl (Exc JSONDecodeError
                   ''Expecting value: line 1 column 1 (char 0)'') :: exc + pyval)"
  let ?rt = "\<lambda>v::pyval. (Inr ''?'' :: exc + string)"
  have p: "process_prompt ?w ''The tap drips.'' [] ''repair_analysis'' = Inr PNone"
    by (simp add: process_prompt_def analyze_customer_request_def send_claude_request_def
          get_claude_api_key_def and_then_def except_classes_def except_Exception_def
          is_subclass_def)
  have p': "process_prompt ?w' ''The tap drips.'' [] ''repair_analysis''
              = Inr (PStr ''Sorry, I cannot help with that.'')"
    by (simp add: process_prompt_def analyze_customer_request_def send_claude_request_def
          get_claude_api_key_def and_then_def except_classes_def except_Exception_def
          read_response_def dict_get_def)
  have g: "generate_response ?loads ?rt (PStr ''Sorry, I cannot help with that.'')
             = Inr (PStr ''Sorry, I cannot help with that.'')"
    using generate_parse_error [of ?loads "''Sorry, I cannot help with that.''" _ ?rt]
    by (simp add: is_subclass_def)
  have a: "handle_prompt ?w ?loads ?rt ''The tap drips.''
             = Inr (PDict [(''status'', PStr ''error''),
                 (''message'', PStr ''Failed to get response from Claude API'')])"
    using C6_gateway [of ?w "''The tap drips.''" ?loads ?rt] p by blast
  have b: "handle_prompt ?w' ?loads ?rt ''The tap drips.''
             = Inr (PDict [(''status'', PStr ''success''),
                 (''response'', PStr ''Sorry, I cannot help with that.'')])"
    using C6_gateway [of ?w' "''The tap drips.''" ?loads ?rt] p' g by fastforce
  have c: "handle_prompt_on (Inl (Exc OtherException ''boom'')) ?loads ?rt
             = Inr (PDict [(''status'', PStr ''error''), (''message'', PStr ''boom'')])"
    using C6_gateway [of ?w "''The tap drips.''" ?loads ?rt] by simp
  from p p' a b c show ?thesis by (intro conjI)
qed

subsection \<open>C7: follow-up questions\<close>

text \<open>
  Claim C7. A well-formed record with \<open>parts_needed = false\<close>, \<open>complexity_level\<close> medium or
  low and \<open>further_inquiry = true\<close> gets exactly its \<open>further_questions\<close> string when that
  string is not empty, and the fixed message that no questions were provided when the
  field is empty or absent.
\<close>

theorem C7_further_questions:
  assumes "validate_claude_response_structure d"
    and "map_of d ''parts_needed'' = Some (PBool False)"
    and "map_of d ''complexity_level'' = Some (PStr s)"
    and "map lower_char s = ''medium'' \<or> map lower_char s = ''low''"
    and "map_of d ''further_inquiry'' = Some (PBool True)"
  shows "(\<forall>q. map_of d ''further_questions'' = Some (PStr q) \<and> q \<noteq> [] \<longrightarrow>
            handle_claude_response rt (PDict d) = Inr (PStr q)) \<and>
         (map_of d ''further_questions'' = None \<or>
          map_of d ''further_questions'' = Some (PStr []) \<longrightarrow>
            handle_claude_response rt (PDict d) = Inr (PStr no_questions_message)) \<and>
         generate_response loads rt (PDict d) = handle_claude_response rt (PDict d)"
proof -
  have "handle_body rt (PDict d) =
          Inr (if \<not> py_truthy (dict_get d ''further_questions'' (PStr []))
               then PStr no_questions_message
               else dict_get d ''further_questions'' (PStr []))"
    using assms(4)
    by (auto simp: handle_body_complete[OF assms(2,3,5) py_str_bool py_str_bool]
          decision_logic_def)
  then have "handle_claude_response rt (PDict d) =
          Inr (if \<not> py_truthy (dict_get d ''further_questions'' (PStr []))
               then PStr no_questions_message
               else dict_get d ''further_questions'' (PStr []))"
    by (rule handle_Inr)
  then show ?thesis
    by (auto simp: dict_get_def generate_dict)
qed

text \<open>
  Two records: one with a question, one without the field.
\<close>

theorem C7_further_questions_witness:
  "validate_claude_response_structure
     [(''parts_needed'', PBool False), (''complexity_level'', PStr ''low''),
      (''further_inquiry'', PBool True),
      (''further_questions'', PStr ''What is the model number?'')] \<and>
   handle_claude_response (\<lambda>v. Inr ''?'')
     (PDict [(''parts_needed'', PBool False), (''complexity_level'', PStr ''low''),
             (''further_inquiry'', PBool True),
             (''further_questions'', PStr ''What is the model number?'')])
     = Inr (PStr ''What is the model number?'') \<and>
   validate_claude_response_structure
     [(''parts_needed'', PBool False), (''complexity_level'', PStr ''Medium''),
      (''further_inquiry'', PBool True)] \<and>
   handle_claude_response (\<lambda>v. Inr ''?'')
     (PDict [(''parts_needed'', PBool False), (''complexity_level'', PStr ''Medium''),
             (''further_inquiry'', PBool True)])
     = Inr (PStr no_questions_message)"
proof -
  let ?d = "[(''parts_needed'', PBool False), (''complexity_level'', PStr ''low''),
             (''further_inquiry'', PBool True),
             (''further_questions'', PStr ''What is the model number?'')]"
  let ?d' = "[(''parts_needed'', PBool False), (''complexity_level'', PStr ''Medium''),
              (''further_inquiry'', PBool True)]"
  let ?rt = "\<lambda>v::pyval. (Inr ''?'' :: exc + string)"
  have v: "validate_claude_response_structure ?d"
    by (simp add: validate_claude_response_structure_def required_field_types_def
          valid_complexity_def lower_char_def)
  have v': "validate_claude_response_structure ?d'"
    by (simp add: validate_claude_response_structure_def required_field_types_def
          valid_complexity_def lower_char_def)
  have l: "map lower_char ''low'' = ''medium'' \<or> map lower_char ''low'' = ''low''"
    by (simp add: lower_char_def)
  have l': "map lower_char ''Medium'' = ''medium'' \<or> map lower_char ''Medium'' = ''low''"
    by (simp add: lower_char_def)
  have a: "handle_claude_response ?rt (PDict ?d) = Inr (PStr ''What is the model number?'')"
    using C7_further_questions [of ?d "''low''" ?rt, OF v _ _ l] by simp
  have b: "handle_claude_response ?rt (PDict ?d') = Inr (PStr no_questions_message)"
    using C7_further_questions [of ?d' "''Medium''" ?rt, OF v' _ _ l'] by simp
  show ?thesis using v v' a b by simp
qed

subsection \<open>C8: the payload of a successful response\<close>

text \<open>
  Claim C8 as stated does not hold. When the first element of the content list is a
  record without a \<open>text\<close> field, \<open>send_claude_request\<close> returns the default of
  \<^verbatim>\<open>.get('text', '')\<close>, the empty string, and not \<^verbatim>\<open>None\<close>.
\<close>

theorem C8_counterexample:
  \<open>send_claude_request
     \<lparr>env_api_key = Some ''test-key'',
      post = (\<lambda>url body headers timeout.
                Inr \<lparr>status_code = 200, response_text = ''{"content": [{"type": "text"}]}'',
                     response_json =
                       Inr (PDict [(''content'', PList [PDict [(''type'', PStr ''text'')]])])\<rparr>),
      get_prompt_content = (\<lambda>key. Inr ''Analyse the repair request.'')\<rparr>
     (request_payload ''The tap drips.'')
   = Inr (PStr '''')\<close>
  by (simp add: send_claude_request_def get_claude_api_key_def and_then_def
        except_classes_def except_Exception_def read_response_def dict_get_def)

text \<open>
  Claim C8, amended. With an API key and a response of status 200, \<open>send_claude_request\<close>
  returns \<^verbatim>\<open>None\<close> when the body is not JSON, is not a record, or has no non-empty content
  list whose first element is a record; otherwise it returns the \<open>text\<close> field of that first
  element, and the empty string when the element has no such field.
\<close>

theorem C8_response_text:
  assumes "env_api_key w = Some k" and "k \<noteq> []"
    and "post w CLAUDE_API_URL payload (request_headers k) 120 = Inr response"
    and "status_code response = 200"
  shows "send_claude_request w payload =
           Inr (case response_json response of
                  Inr (PDict body) \<Rightarrow>
                    (case dict_get body ''content'' (PList []) of
                       PList (PDict item # rest) \<Rightarrow> dict_get item ''text'' (PStr [])
                     | _ \<Rightarrow> PNone)
                | _ \<Rightarrow> PNone)"
  using send_claude_request_ok[OF assms(1,2,3)] read_response_200[OF assms(4)]
  by simp

text \<open>
  A well-shaped payload, and one with an empty content list.
\<close>

theorem C8_response_text_witness:
  \<open>send_claude_request
     \<lparr>env_api_key = Some ''test-key'',
      post = (\<lambda>url body headers timeout.
                Inr \<lparr>status_code = 200,
                     response_text = ''{"content": [{"type": "text", "text": "Which tap?"}]}'',
                     response_json =
                       Inr (PDict [(''content'',
                              PList [PDict [(''type'', PStr ''text''),
                                            (''text'', PStr ''Which tap?'')]])])\<rparr>),
      get_prompt_content = (\<lambda>key. Inr ''Analyse the repair request.'')\<rparr>
     (request_payload ''The tap drips.'')
   = Inr (PStr ''Which tap?'') \<and>
   send_claude_request
     \<lparr>env_api_key = Some ''test-key'',
      post = (\<lambda>url body headers timeout.
                Inr \<lparr>status_code = 200, response_text = ''{"content": []}'',
                     response_json = Inr (PDict [(''content'', PList [])])\<rparr>),
      get_prompt_content = (\<lambda>key. Inr ''Analyse the repair request.'')\<rparr>
     (request_payload ''The tap drips.'')
   = Inr PNone\<close>
proof -
  let ?r = \<open>\<lparr>status_code = 200,
             response_text = ''{"content": [{"type": "text", "text": "Which tap?"}]}'',
             response_json =
               Inr (PDict [(''content'',
                      PList [PDict [(''type'', PStr ''text''),
                                    (''text'', PStr ''Which tap?'')]])])\<rparr>\<close>
  let ?w = "\<lparr>env_api_key = Some ''test-key'',
             post = (\<lambda>url body headers timeout. Inr ?r),
             get_prompt_content = (\<lambda>key. Inr ''Analyse the repair request.'')\<rparr>"
  let ?r' = \<open>\<lparr>status_code = 200, response_text = ''{"content": []}'',
              response_json = Inr (PDict [(''content'', PList [])])\<rparr>\<close>
  let ?w' = "\<lparr>env_api_key = Some ''test-key'',
              post = (\<lambda>url body headers timeout. Inr ?r'),
              get_prompt_content = (\<lambda>key. Inr ''Analyse the repair request.'')\<rparr>"
  have a: "send_claude_request ?w (request_payload ''The tap drips.'') = Inr (PStr ''Which tap?'')"
    using C8_response_text [of ?w "''test-key''" "request_payload ''The tap drips.''" ?r]
    by (simp add: dict_get_def)
  have b: "send_claude_request ?w' (request_payload ''The tap drips.'') = Inr PNone"
    using C8_response_text [of ?w' "''test-key''" "request_payload ''The tap drips.''" ?r']
    by (simp add: dict_get_def)
  from a b show ?thesis by simp
qed

subsection \<open>C9: the fallback branch\<close>

text \<open>
  Claim C9 as stated does not hold for every \<open>parts_needed\<close> that is not a boolean. Before
  the decision rules the function logs \<open>parts_needed\<close> and \<open>further_inquiry\<close> in an f-string.
  For the integer \<open>10 ^ 5000\<close> the conversion to text raises \<^verbatim>\<open>ValueError\<close> (the limit is 4300
  digits), and the interpreter returns the diagnostic string, not the fallback message.
\<close>

theorem C9_counterexample:
  "handle_claude_response
     (\<lambda>v. Inl (Exc ValueError ''Exceeds the limit (4300 digits) for integer string conversion; use sys.set_int_max_str_digits() to increase the limit''))
     (PDict [(''parts_needed'', PInt (10 ^ 5000)), (''complexity_level'', PStr ''low''),
             (''further_inquiry'', PBool False)])
   = Inr (PStr ''Error processing repair analysis: Exceeds the limit (4300 digits) for integer string conversion; use sys.set_int_max_str_digits() to increase the limit'')"
proof -
  let ?m = "''Exceeds the limit (4300 digits) for integer string conversion; use sys.set_int_max_str_digits() to increase the limit''"
  have a: "handle_claude_response (\<lambda>v. Inl (Exc ValueError ?m))
     (PDict [(''parts_needed'', PInt (10 ^ 5000)), (''complexity_level'', PStr ''low''),
             (''further_inquiry'', PBool False)])
     = Inr (PStr (error_prefix @ exc_str (Exc ValueError ?m)))"
    by (rule fallback_log_raises) (rule refl)
  have e: "error_prefix @ exc_str (Exc ValueError ?m) =
    ''Error processing repair analysis: Exceeds the limit (4300 digits) for integer string conversion; use sys.set_int_max_str_digits() to increase the limit''"
    by (simp add: error_prefix_def)
  from a[unfolded e] show ?thesis .
qed

text \<open>
  Claim C9, amended. A dict with the three required keys, a string \<open>complexity_level\<close>
  that is not \<open>high\<close> in any case, a \<open>parts_needed\<close> that is neither the boolean true nor the
  boolean false, and values of \<open>parts_needed\<close> and \<open>further_inquiry\<close> that the runtime can
  print for the log line, reaches the last branch of the decision rules and gets the
  fallback message: the branch is reachable.
\<close>

theorem C9_fallback_reachable:
  assumes "map_of d ''parts_needed'' = Some p"
    and "p \<noteq> PBool True" and "p \<noteq> PBool False"
    and "map_of d ''complexity_level'' = Some (PStr s)"
    and "map lower_char s \<noteq> ''high''"
    and "map_of d ''further_inquiry'' = Some i"
    and "py_str rt p = Inr logged_parts"
    and "py_str rt i = Inr logged_inquiry"
  shows "handle_claude_response rt (PDict d) = Inr (PStr fallback_message) \<and>
         generate_response loads rt (PDict d) = Inr (PStr fallback_message)"
proof -
  have "handle_body rt (PDict d) = Inr (PStr fallback_message)"
    using assms(2,3,5,7)
    by (simp add: handle_body_complete[OF assms(1,4,6,7,8)] decision_logic_def and_then_def)
  then have "handle_claude_response rt (PDict d) = Inr (PStr fallback_message)"
    by (rule handle_Inr)
  then show ?thesis by (simp add: generate_dict)
qed

text \<open>
  The branch is reached with \<open>parts_needed\<close> the string \<open>"true"\<close> and with the number 1.
\<close>

theorem C9_fallback_reachable_witness:
  "map lower_char ''low'' \<noteq> ''high'' \<and>
   handle_claude_response (\<lambda>v. Inr ''1'')
     (PDict [(''parts_needed'', PStr ''true''), (''complexity_level'', PStr ''low''),
             (''further_inquiry'', PBool False)])
     = Inr (PStr fallback_message) \<and>
   handle_claude_response (\<lambda>v. Inr ''1'')
     (PDict [(''parts_needed'', PInt 1), (''complexity_level'', PStr ''low''),
             (''further_inquiry'', PBool False)])
     = Inr (PStr fallback_message)"
proof -
  let ?rt = "\<lambda>v::pyval. (Inr ''1'' :: exc + string)"
  have l: "map lower_char ''low'' \<noteq> ''high''"
    by (simp add: lower_char_def)
  have a: "handle_claude_response ?rt
     (PDict [(''parts_needed'', PStr ''true''), (''complexity_level'', PStr ''low''),
             (''further_inquiry'', PBool False)]) = Inr (PStr fallback_message)"
    using C9_fallback_reachable
      [of _ "PStr ''true''" "''low''" "PBool False" ?rt "''true''" "''False''",
       OF _ _ _ _ l]
    by simp
  have b: "handle_claude_response ?rt
     (PDict [(''parts_needed'', PInt 1), (''complexity_level'', PStr ''low''),
             (''further_inquiry'', PBool False)]) = Inr (PStr fallback_message)"
    using C9_fallback_reachable
      [of _ "PInt 1" "''low''" "PBool False" ?rt "''1''" "''False''", OF _ _ _ _ l]
    by simp
  show ?thesis using l a b by simp
qed

subsection \<open>C10: JSON that is not an object\<close>

text \<open>
  Claim C10. A raw string that parses to a value that is not a dict is not returned as it
  is: the body of \<open>handle_claude_response\<close> raises on the value and the output is
  \<^verbatim>\<open>Error processing repair analysis: \<close> followed by the text of that exception. The third
  hypothesis is a fact about \<^verbatim>\<open>json.loads\<close>: no text it accepts begins with the letter E (a
  JSON text begins, after white space, with a brace, a bracket, a quote, a minus sign, a
  digit or one of the letters t, f, n, N, I).
\<close>

theorem C10_parsed_non_object:
  assumes "loads raw = Inr v"
    and "\<forall>d. v \<noteq> PDict d"
    and "\<forall>t u. loads t = Inr u \<longrightarrow> \<not> prefix ''E'' t"
  shows "(\<exists>e. handle_body rt v = Inl e \<and>
            generate_response loads rt (PStr raw) =
              Inr (PStr (''Error processing repair analysis: '' @ exc_str e))) \<and>
         generate_response loads rt (PStr raw) \<noteq> Inr (PStr raw)"
proof -
  from handle_body_non_dict[OF assms(2)] obtain e where e: "handle_body rt v = Inl e"
    by blast
  have g: "generate_response loads rt (PStr raw) =
             Inr (PStr (''Error processing repair analysis: '' @ exc_str e))"
    using handle_Inl[OF e] generate_parsed[of loads raw v rt, OF assms(1)]
    by (simp add: error_prefix_def)
  from assms(1,3) have "\<not> prefix ''E'' raw" by blast
  then have "raw \<noteq> ''Error processing repair analysis: '' @ exc_str e"
    by (auto simp: prefix_def)
  with g e show ?thesis by simp
qed

text \<open>
  The text \<open>42\<close>.
\<close>

theorem C10_parsed_non_object_witness:
  "generate_response
     (\<lambda>t. if t = ''42'' then Inr (PInt 42) else Inl (Exc JSONDecodeError ''Expecting value''))
     (\<lambda>v. Inr ''?'') (PStr ''42'')
   = Inr (PStr (''Error processing repair analysis: argument of type 'int' is not iterable'')) \<and>
   generate_response
     (\<lambda>t. if t = ''42'' then Inr (PInt 42) else Inl (Exc JSONDecodeError ''Expecting value''))
     (\<lambda>v. Inr ''?'') (PStr ''42'')
   \<noteq> Inr (PStr ''42'')"
proof -
  let ?loads = "\<lambda>t. if t = ''42'' then Inr (PInt 42)
                     else (Inl (Exc JSONDecodeError ''Expecting value'') :: exc + pyval)"
  have a: "?loads ''42'' = Inr (PInt 42)" by simp
  have b: "\<forall>d. PInt 42 \<noteq> PDict d" by simp
  have c: "\<forall>t u. ?loads t = Inr u \<longrightarrow> \<not> prefix ''E'' t" by (simp split: if_splits)
  have e: "handle_body (\<lambda>v. Inr ''?'') (PInt 42) =
             Inl (Exc TypeError ''argument of type 'int' is not iterable'')"
    by (simp add: handle_body_def required_fields_def and_then_def quoted_def)
  show ?thesis
    using C10_parsed_non_object [of ?loads "''42''" "PInt 42" "\<lambda>v. Inr ''?''", OF a b c] e
    by simp
qed

end
